theory Spec2Isabelle
  imports Complex_Main "HOL-Library.Log_Nat" "HOL-Library.Multiset"
begin

section \<open>JavaScript values\<close>

text \<open>
  A JavaScript number is an IEEE-754 double. A finite double is the dyadic rational
  \<open>m * 2^e\<close>, written \<open>Fin m e\<close> with \<open>m\<close> odd, and \<open>Fin 0 0\<close> for zero, so that
  equal numbers are equal terms. The two zeros are identified (the aggregator starts every
  sum from \<open>+0\<close>, and \<open>+0 + -0 = +0\<close>, so no total can tell them apart).
\<close>

datatype jsnum = NaN | PInf | NInf | Fin int int

text \<open>
  Values as \<open>JSON.parse\<close> and property access produce them. An object is the list of its
  own properties; a property that is absent reads as \<open>undefined\<close>.
\<close>

datatype jsval =
    JUndef
  | JNull
  | JBool bool
  | JNum jsnum
  | JStr string
  | JArr "jsval list"
  | JObj "(string \<times> jsval) list"

text \<open>Everything the scripts can throw, one constructor per throw site or runtime error.\<close>

datatype error =
    InvalidDateFormat
  | AuthenticationError int jsval
  | AccountSearchError int jsval
  | TradeSearchError int jsval jsval
  | ResponseParseError
  | TokenMissing
  | FetchFailed
  | TypeError
  | RangeError
  | SheetException

text \<open>\<open>ToBoolean\<close>: the test that \<open>if (v)\<close>, \<open>!v\<close>, \<open>a && b\<close> and \<open>a || b\<close> apply.\<close>

fun truthy :: "jsval \<Rightarrow> bool" where
  "truthy JUndef = False"
| "truthy JNull = False"
| "truthy (JBool b) = b"
| "truthy (JNum n) = (n \<noteq> NaN \<and> n \<noteq> Fin 0 0)"
| "truthy (JStr s) = (s \<noteq> [])"
| "truthy (JArr xs) = True"
| "truthy (JObj kvs) = True"

text \<open>
  \<open>v.k\<close> for the property names the scripts read (none of them is a built-in property of
  a string, number, boolean or array): the property of an object, \<open>undefined\<close> on any
  other value. On \<open>null\<close> and \<open>undefined\<close> the read throws a \<open>TypeError\<close>; every
  caller below tests \<open>nullish\<close> first and raises it there.
\<close>

fun field :: "jsval \<Rightarrow> string \<Rightarrow> jsval" where
  "field (JObj kvs) k = (case map_of kvs k of None \<Rightarrow> JUndef | Some v \<Rightarrow> v)"
| "field v k = JUndef"

definition nullish :: "jsval \<Rightarrow> bool" where
  "nullish v = (v = JNull \<or> v = JUndef)"

text \<open>\<open>a || b\<close> on values.\<close>

definition js_or :: "jsval \<Rightarrow> jsval \<Rightarrow> jsval" where
  "js_or a b = (if truthy a then a else b)"

section \<open>Double-precision arithmetic\<close>

text \<open>
  Addition and subtraction of JavaScript numbers are the IEEE-754 binary64 operations:
  the exact result, rounded to the nearest double, ties to the even significand. A double
  has 53 significant bits, exponents from -1022 to 1023 and, below that, the subnormal
  spacing of \<open>2^-1074\<close>; a rounded magnitude of \<open>2^1024\<close> or more is infinite.
\<close>

text \<open>The odd-mantissa form of \<open>m * 2^e\<close>.\<close>

function strip_even :: "int \<Rightarrow> int \<Rightarrow> int \<times> int" where
  "strip_even m e = (if m \<noteq> 0 \<and> even m then strip_even (m div 2) (e + 1) else (m, e))"
  by pat_completeness auto
termination
  by (relation "measure (\<lambda>(m, e). nat \<bar>m\<bar>)") auto

definition dyadic :: "int \<Rightarrow> int \<Rightarrow> jsnum" where
  "dyadic m e = (if m = 0 then Fin 0 0 else case strip_even m e of (m', e') \<Rightarrow> Fin m' e')"

text \<open>
  For \<open>p \<noteq> 0\<close> and \<open>q > 0\<close>, the exponent \<open>E\<close> with \<open>2^E \<le> |p| / q < 2^(E+1)\<close>: the
  difference of the bit lengths or one less.
\<close>

definition ratio_exponent :: "int \<Rightarrow> int \<Rightarrow> int" where
  "ratio_exponent p q =
     (let k = bitlen \<bar>p\<bar> - bitlen q
      in if (if 0 \<le> k then q * 2 ^ nat k \<le> \<bar>p\<bar> else q \<le> \<bar>p\<bar> * 2 ^ nat (- k)) then k else k - 1)"

text \<open>The integer nearest to \<open>n / d\<close> (\<open>d > 0\<close>), a tie going to the even one.\<close>

definition round_half_even :: "int \<Rightarrow> int \<Rightarrow> int" where
  "round_half_even n d =
     (let f = n div d; r = n mod d
      in if 2 * r < d then f else if d < 2 * r then f + 1 else if even f then f else f + 1)"

text \<open>The double nearest to the exact quotient \<open>p / q\<close> (\<open>q > 0\<close>).\<close>

definition double_of_ratio :: "int \<Rightarrow> int \<Rightarrow> jsnum" where
  "double_of_ratio p q =
     (if p = 0 then Fin 0 0
      else
        (let u = max (ratio_exponent p q) (- 1022) - 52;
             r = (if 0 \<le> u then round_half_even p (q * 2 ^ nat u)
                  else round_half_even (p * 2 ^ nat (- u)) q)
         in if 971 < u \<or> (u = 971 \<and> 2 ^ 53 \<le> \<bar>r\<bar>) then (if 0 < p then PInf else NInf) else dyadic r u))"

fun dadd :: "jsnum \<Rightarrow> jsnum \<Rightarrow> jsnum" where
  "dadd (Fin a i) (Fin b j) =
     (let e = min i j; p = a * 2 ^ nat (i - e) + b * 2 ^ nat (j - e)
      in if 0 \<le> e then double_of_ratio (p * 2 ^ nat e) 1 else double_of_ratio p (2 ^ nat (- e)))"
| "dadd NaN y = NaN"
| "dadd x NaN = NaN"
| "dadd PInf NInf = NaN"
| "dadd NInf PInf = NaN"
| "dadd PInf y = PInf"
| "dadd x PInf = PInf"
| "dadd NInf y = NInf"
| "dadd x NInf = NInf"

fun dneg :: "jsnum \<Rightarrow> jsnum" where
  "dneg NaN = NaN"
| "dneg PInf = NInf"
| "dneg NInf = PInf"
| "dneg (Fin a i) = Fin (- a) i"

definition dsub :: "jsnum \<Rightarrow> jsnum \<Rightarrow> jsnum" where
  "dsub x y = dadd x (dneg y)"

section \<open>Time values and the calendar\<close>

text \<open>
  The time value of a \<open>Date\<close> is a count of milliseconds since 1970-01-01T00:00:00Z, or
  \<open>NaN\<close> for an invalid date (\<open>None\<close> below). The day and year arithmetic is the one of
  the ECMAScript specification (section "Time Values and Time Range" and the ones after
  it): \<open>Day\<close>, \<open>DaysInYear\<close>, \<open>DayFromYear\<close>, \<open>YearFromTime\<close>,
  \<open>MonthFromTime\<close>, \<open>DateFromTime\<close>, \<open>MakeDay\<close>, \<open>MakeTime\<close>, \<open>MakeDate\<close>.
\<close>

definition msPerDay :: int where
  "msPerDay = 86400000"

definition DaysInYear :: "int \<Rightarrow> int" where
  "DaysInYear y =
     (if y mod 4 \<noteq> 0 then 365 else if y mod 100 \<noteq> 0 then 366
      else if y mod 400 \<noteq> 0 then 365 else 366)"

definition DayFromYear :: "int \<Rightarrow> int" where
  "DayFromYear y =
     365 * (y - 1970) + (y - 1969) div 4 - (y - 1901) div 100 + (y - 1601) div 400"

text \<open>Each year starts \<open>DaysInYear\<close> days after the one before it.\<close>

lemma div_succ:
  fixes a k :: int
  assumes "1 < k"
  shows "(a + 1) div k = a div k + (if (a + 1) mod k = 0 then 1 else 0)"
proof -
  have d: "(a + 1) div k = a div k + 1 div k + (a mod k + 1 mod k) div k"
    by (rule div_add1_eq)
  have one: "1 div k = 0" "1 mod k = 1" using assms by simp_all
  have r: "0 \<le> a mod k" "a mod k < k" using assms by simp_all
  have m: "(a + 1) mod k = (a mod k + 1) mod k"
    by (simp add: mod_add_left_eq)
  show ?thesis
  proof (cases "a mod k = k - 1")
    case True
    then have "(a mod k + 1) div k = 1" "(a + 1) mod k = 0" using assms m by simp_all
    with d one show ?thesis by simp
  next
    case False
    with r have lt: "a mod k + 1 < k" by simp
    with r have "(a mod k + 1) div k = 0" "(a + 1) mod k = a mod k + 1"
      using m by (simp_all add: div_pos_pos_trivial mod_pos_pos_trivial)
    with d one r show ?thesis by simp
  qed
qed

lemma shift4: "((y::int) - 1968) mod 4 = y mod 4"
  using mod_mult_self2 [of y 4 "-492"] by simp
lemma shift100: "((y::int) - 1900) mod 100 = y mod 100"
  using mod_mult_self2 [of y 100 "-19"] by simp
lemma shift400: "((y::int) - 1600) mod 400 = y mod 400"
  using mod_mult_self2 [of y 400 "-4"] by simp
lemma m100_4: "(y::int) mod 100 = 0 \<Longrightarrow> y mod 4 = 0"
proof -
  assume "y mod 100 = 0"
  then have "100 dvd y" by (simp add: mod_eq_0_iff_dvd)
  moreover have "(4::int) dvd 100" by simp
  ultimately have "4 dvd y" by (rule dvd_trans [rotated])
  then show ?thesis by (simp add: mod_eq_0_iff_dvd)
qed
lemma m400_100: "(y::int) mod 400 = 0 \<Longrightarrow> y mod 100 = 0"
proof -
  assume "y mod 400 = 0"
  then have "400 dvd y" by (simp add: mod_eq_0_iff_dvd)
  moreover have "(100::int) dvd 400" by simp
  ultimately have "100 dvd y" by (rule dvd_trans [rotated])
  then show ?thesis by (simp add: mod_eq_0_iff_dvd)
qed

lemma DayFromYear_step: "DayFromYear (y + 1) = DayFromYear y + DaysInYear y"
proof -
  have a: "(y + 1 - 1969) div 4 = (y - 1969) div 4 + (if y mod 4 = 0 then 1 else 0)"
    using div_succ [of 4 "y - 1969"] shift4 [of y] by (simp add: algebra_simps)
  have b: "(y + 1 - 1901) div 100 = (y - 1901) div 100 + (if y mod 100 = 0 then 1 else 0)"
    using div_succ [of 100 "y - 1901"] shift100 [of y] by (simp add: algebra_simps)
  have c: "(y + 1 - 1601) div 400 = (y - 1601) div 400 + (if y mod 400 = 0 then 1 else 0)"
    using div_succ [of 400 "y - 1601"] shift400 [of y] by (simp add: algebra_simps)
  show ?thesis
    unfolding DayFromYear_def DaysInYear_def a b c
    using m100_4 [of y] m400_100 [of y] by auto
qed

lemma DaysInYear_bounds: "365 \<le> DaysInYear y" "DaysInYear y \<le> 366"
  unfolding DaysInYear_def by auto

lemma DayFromYear_less: "DayFromYear y < DayFromYear (y + 1)"
  using DayFromYear_step [of y] DaysInYear_bounds(1) [of y] by simp

text \<open>
  \<open>YearFromTime\<close> is the largest \<open>y\<close> with \<open>DayFromYear y \<le> Day t\<close>. It is found by
  counting up from a year that is not after it: a year has at most 366 days and at least 365.
\<close>

function year_upto :: "int \<Rightarrow> int \<Rightarrow> int" where
  "year_upto d y = (if DayFromYear (y + 1) \<le> d then year_upto d (y + 1) else y)"
  by pat_completeness auto
termination
proof (relation "measure (\<lambda>(d, y). nat (d + 1 - DayFromYear (y + 1)))")
  show "wf (measure (\<lambda>(d, y). nat (d + 1 - DayFromYear (y + 1))))"
    by simp
next
  fix d y :: int
  assume a: "DayFromYear (y + 1) \<le> d"
  have "DayFromYear (y + 1) < DayFromYear (y + 1 + 1)"
    by (rule DayFromYear_less)
  with a show "((d, y + 1), (d, y)) \<in> measure (\<lambda>(d, y). nat (d + 1 - DayFromYear (y + 1)))"
    by simp
qed

definition YearFromDay :: "int \<Rightarrow> int" where
  "YearFromDay d = year_upto d (1970 + (if 0 \<le> d then d div 366 else d div 365))"

text \<open>The lengths of the twelve months of year \<open>y\<close>, January first.\<close>

definition month_lengths :: "int \<Rightarrow> int list" where
  "month_lengths y =
     [31, if DaysInYear y = 366 then 29 else 28, 31, 30, 31, 30, 31, 31, 30, 31, 30, 31]"

text \<open>
  \<open>month_date ls m r\<close>: the month (counted from \<open>m\<close>) and the day of the month (from 1)
  of the day that lies \<open>r\<close> days after the start of the months of lengths \<open>ls\<close>.
\<close>

fun month_date :: "int list \<Rightarrow> int \<Rightarrow> int \<Rightarrow> int \<times> int" where
  "month_date [] m r = (m, r + 1)"
| "month_date (l # ls) m r = (if r < l then (m, r + 1) else month_date ls (m + 1) (r - l))"

text \<open>\<open>MakeDay(year, month, date)\<close> on integers; \<open>month\<close> counts from 0 and may overflow.\<close>

definition MakeDay :: "int \<Rightarrow> int \<Rightarrow> int \<Rightarrow> int" where
  "MakeDay year month date =
     (let ym = year + month div 12; mn = month mod 12
      in DayFromYear ym + sum_list (take (nat mn) (month_lengths ym)) + date - 1)"

definition MakeTime :: "int \<Rightarrow> int \<Rightarrow> int \<Rightarrow> int \<Rightarrow> int" where
  "MakeTime hour minute sec ms = hour * 3600000 + minute * 60000 + sec * 1000 + ms"

definition MakeDate :: "int \<Rightarrow> int \<Rightarrow> int" where
  "MakeDate day time = day * msPerDay + time"

text \<open>\<open>TimeClip\<close>: a time value beyond 8.64e15 ms from the epoch is \<open>NaN\<close>.\<close>

definition TimeClip :: "int \<Rightarrow> int option" where
  "TimeClip t = (if \<bar>t\<bar> \<le> 8640000000000000 then Some t else None)"

subsection \<open>Digits\<close>

definition is_digit :: "char \<Rightarrow> bool" where
  "is_digit c = (c \<in> set ''0123456789'')"

definition digit_val :: "char \<Rightarrow> int" where
  "digit_val c = int (of_char c) - 48"

definition decimal :: "string \<Rightarrow> int" where
  "decimal s = foldl (\<lambda>a c. 10 * a + digit_val c) 0 s"

text \<open>The \<open>w\<close> lowest decimal digits of \<open>v\<close>, zero-padded.\<close>

fun pad :: "nat \<Rightarrow> nat \<Rightarrow> string" where
  "pad 0 v = []"
| "pad (Suc w) v = pad w (v div 10) @ [''0123456789'' ! (v mod 10)]"

subsection \<open>Parsing and printing the date-time string format\<close>

text \<open>
  \<open>new Date(s)\<close> for a string of the shape \<open>YYYY-MM-DDTHH:mm:ss.sssZ\<close>, the only shape
  \<open>getDateTimestamps\<close> builds. The fields are checked as V8 (the Apps Script runtime)
  checks them: month 01 to 12, day 01 to 31, hour 00 to 24 (24 only as 24:00:00.000),
  minute and second 00 to 59; a field out of range gives an invalid date. A day past the
  end of its month is accepted and carried into the next month by \<open>MakeDay\<close>. A string of
  another shape is never passed here; the function answers \<open>None\<close> for it.
\<close>

definition newDate :: "string \<Rightarrow> int option" where
  "newDate s =
     (case s of
        [y1, y2, y3, y4, a, m1, m2, b, d1, d2, t, h1, h2, c, i1, i2, d, s1, s2, e, f1, f2, f3, z] \<Rightarrow>
          if list_all is_digit [y1, y2, y3, y4, m1, m2, d1, d2, h1, h2, i1, i2, s1, s2, f1, f2, f3]
             \<and> [a, b, t, c, d, e, z] = ''--T::.Z''
          then
            (let year = decimal [y1, y2, y3, y4]; month = decimal [m1, m2]; day = decimal [d1, d2];
                 hour = decimal [h1, h2]; minute = decimal [i1, i2]; sec = decimal [s1, s2];
                 ms = decimal [f1, f2, f3]
             in if 1 \<le> month \<and> month \<le> 12 \<and> 1 \<le> day \<and> day \<le> 31
                   \<and> hour \<le> 24 \<and> minute \<le> 59 \<and> sec \<le> 59
                   \<and> (hour = 24 \<longrightarrow> minute = 0 \<and> sec = 0 \<and> ms = 0)
                then TimeClip (MakeDate (MakeDay year (month - 1) day) (MakeTime hour minute sec ms))
                else None)
          else None
      | _ \<Rightarrow> None)"

text \<open>
  \<open>Date.prototype.toISOString\<close>: a \<open>RangeError\<close> on an invalid date; the year with four
  digits from 0 to 9999, with a sign and six digits otherwise.
\<close>

definition year_string :: "int \<Rightarrow> string" where
  "year_string y =
     (if 0 \<le> y \<and> y \<le> 9999 then pad 4 (nat y)
      else (if y < 0 then ''-'' else ''+'') @ pad 6 (nat \<bar>y\<bar>))"

definition toISOString :: "int option \<Rightarrow> error + string" where
  "toISOString tv =
     (case tv of
        None \<Rightarrow> Inl RangeError
      | Some t \<Rightarrow>
          (let day = t div msPerDay; time = t mod msPerDay;
               year = YearFromDay day;
               md = month_date (month_lengths year) 0 (day - DayFromYear year)
           in Inr (year_string year @ ''-'' @ pad 2 (nat (fst md + 1)) @ ''-'' @ pad 2 (nat (snd md))
                   @ ''T'' @ pad 2 (nat (time div 3600000)) @ '':''
                   @ pad 2 (nat (time mod 3600000 div 60000)) @ '':''
                   @ pad 2 (nat (time mod 60000 div 1000)) @ ''.''
                   @ pad 3 (nat (time mod 1000)) @ ''Z'')))"

subsection \<open>The date window\<close>

text \<open>The test \<open>/^\d{4}-\d{2}-\d{2}$/\<close>.\<close>

definition date_pattern :: "string \<Rightarrow> bool" where
  "date_pattern s =
     (case s of
        [y1, y2, y3, y4, a, m1, m2, b, d1, d2] \<Rightarrow>
          list_all is_digit [y1, y2, y3, y4, m1, m2, d1, d2] \<and> a = CHR ''-'' \<and> b = CHR ''-''
      | _ \<Rightarrow> False)"

text \<open>
  \<open>getDateTimestamps(dateString)\<close>: the pair \<open>(startTimestamp, endTimestamp)\<close>, or what
  it throws.
\<close>

definition getDateTimestamps :: "string \<Rightarrow> error + (string \<times> string)" where
  "getDateTimestamps dateString =
     (if \<not> date_pattern dateString then Inl InvalidDateFormat
      else
        (case toISOString (newDate (dateString @ ''T00:00:00.000Z'')) of
           Inl err \<Rightarrow> Inl err
         | Inr startTimestamp \<Rightarrow>
             (case toISOString (newDate (dateString @ ''T23:59:59.999Z'')) of
                Inl err \<Rightarrow> Inl err
              | Inr endTimestamp \<Rightarrow> Inr (startTimestamp, endTimestamp))))"

section \<open>The remote trade-data provider\<close>

text \<open>
  \<open>UrlFetchApp.fetch\<close> either throws or returns a response: its status code, its body
  text, and what \<open>JSON.parse\<close> makes of the body (\<open>None\<close> when it throws a
  \<open>SyntaxError\<close>). The provider answers each of the three requests the scripts send.
\<close>

datatype fetched = FetchException | HTTPResponse int string "jsval option"

record remote =
  loginKey :: "string \<Rightarrow> string \<Rightarrow> fetched"
  accountSearch :: "jsval \<Rightarrow> fetched"
  tradeSearch :: "jsval \<Rightarrow> jsval \<Rightarrow> string \<Rightarrow> string \<Rightarrow> fetched"

text \<open>\<open>responseData.errorMessage || responseBody || '...'\<close> (the last literal is "unknown error").\<close>

definition errorText :: "jsval \<Rightarrow> string \<Rightarrow> jsval" where
  "errorText responseData responseBody =
     js_or (field responseData ''errorMessage'') (js_or (JStr responseBody) (JStr ''unknown error''))"

text \<open>
  \<open>authenticate(userName, apiKey)\<close>. The \<open>catch\<close> block rethrows what it caught, a
  \<open>SyntaxError\<close> as the "response could not be parsed" error.
\<close>

definition authenticate :: "remote \<Rightarrow> string \<Rightarrow> string \<Rightarrow> error + jsval" where
  "authenticate R userName apiKey =
     (case loginKey R userName apiKey of
        FetchException \<Rightarrow> Inl FetchFailed
      | HTTPResponse responseCode responseBody parsed \<Rightarrow>
          (case parsed of
             None \<Rightarrow> Inl ResponseParseError
           | Some responseData \<Rightarrow>
               if nullish responseData then Inl TypeError
               else if responseCode = 200 \<and> truthy (field responseData ''success'')
                       \<and> field responseData ''errorCode'' = JNum (Fin 0 0)
                       \<and> truthy (field responseData ''token'')
               then Inr (field responseData ''token'')
               else Inl (AuthenticationError responseCode (errorText responseData responseBody))))"

text \<open>\<open>searchAccounts(token)\<close>.\<close>

definition searchAccounts :: "remote \<Rightarrow> jsval \<Rightarrow> error + jsval" where
  "searchAccounts R token =
     (case accountSearch R token of
        FetchException \<Rightarrow> Inl FetchFailed
      | HTTPResponse responseCode responseBody parsed \<Rightarrow>
          (case parsed of
             None \<Rightarrow> Inl ResponseParseError
           | Some responseData \<Rightarrow>
               if nullish responseData then Inl TypeError
               else if responseCode = 200 \<and> truthy (field responseData ''success'')
                       \<and> field responseData ''errorCode'' = JNum (Fin 0 0)
                       \<and> truthy (field responseData ''accounts'')
               then Inr (field responseData ''accounts'')
               else Inl (AccountSearchError responseCode (errorText responseData responseBody))))"

text \<open>\<open>searchTrades(token, accountId, startTimestamp, endTimestamp)\<close>; \<open>trades || []\<close> on success.\<close>

definition searchTrades :: "remote \<Rightarrow> jsval \<Rightarrow> jsval \<Rightarrow> string \<Rightarrow> string \<Rightarrow> error + jsval" where
  "searchTrades R token accountId startTimestamp endTimestamp =
     (case tradeSearch R token accountId startTimestamp endTimestamp of
        FetchException \<Rightarrow> Inl FetchFailed
      | HTTPResponse responseCode responseBody parsed \<Rightarrow>
          (case parsed of
             None \<Rightarrow> Inl ResponseParseError
           | Some responseData \<Rightarrow>
               if nullish responseData then Inl TypeError
               else if responseCode = 200 \<and> truthy (field responseData ''success'')
                       \<and> field responseData ''errorCode'' = JNum (Fin 0 0)
               then Inr (js_or (field responseData ''trades'') (JArr []))
               else Inl (TradeSearchError responseCode accountId (errorText responseData responseBody))))"

section \<open>The spreadsheet\<close>

text \<open>
  A cell holds what \<open>getValues\<close> returns for it: a number, a boolean, a string or a
  \<open>Date\<close> (its time value); an empty cell reads as the empty string. A sheet is the list
  of its rows from row 1, a row the list of its cells from column A; cells beyond the end
  of a row are empty. The spreadsheet holds the two sheets the scripts work on: the trade
  history (\<open>CONFIG.HISTORY_SHEET_NAME\<close>) and the daily profits.
\<close>

datatype cell = CNum jsnum | CBool bool | CStr string | CDate int

type_synonym sheet = "cell list list"

record spreadsheet =
  historySheet :: "sheet option"
  dailySheet :: "sheet option"

text \<open>
  The services of the Apps Script runtime that the scripts call and do not define:
  \<^item> \<open>stored v\<close>: the cell a sheet keeps when \<open>setValues\<close> writes the value \<open>v\<close>;
  \<^item> \<open>formatDate tz d\<close>: \<open>Utilities.formatDate(d, tz, 'yyyy-MM-dd')\<close> for the date with
    time value \<open>d\<close> (\<open>None\<close>: an invalid date); the result \<open>None\<close> stands for an exception;
  \<^item> \<open>dateOfString s\<close>: the time value of \<open>new Date(s)\<close>, \<open>None\<close> for an invalid date;
  \<^item> \<open>toNumber s\<close>: \<open>Number(s)\<close>;
  \<^item> \<open>localDate y m d h mi s\<close>: the time value of \<open>new Date(y, m, d, h, mi, s)\<close>;
  \<^item> \<open>scriptTimeZone\<close>: \<open>Session.getScriptTimeZone()\<close>.
\<close>

record platform =
  stored :: "jsval \<Rightarrow> cell"
  formatDate :: "string \<Rightarrow> int option \<Rightarrow> string option"
  dateOfString :: "string \<Rightarrow> int option"
  toNumber :: "string \<Rightarrow> jsnum"
  localDate :: "jsnum \<Rightarrow> jsnum \<Rightarrow> jsnum \<Rightarrow> jsnum \<Rightarrow> jsnum \<Rightarrow> jsnum \<Rightarrow> int option"
  scriptTimeZone :: string

definition TIMEZONE :: string where
  "TIMEZONE = ''Asia/Tokyo''"

definition blank :: "cell \<Rightarrow> bool" where
  "blank c = (c = CStr [])"

text \<open>The number of the last column of a row, and of the last row of a sheet, with content.\<close>

definition lastColumnOf :: "cell list \<Rightarrow> nat" where
  "lastColumnOf r = length (dropWhile blank (rev r))"

definition getLastColumn :: "sheet \<Rightarrow> nat" where
  "getLastColumn sh = foldr (\<lambda>r n. max (lastColumnOf r) n) sh 0"

definition getLastRow :: "sheet \<Rightarrow> nat" where
  "getLastRow sh = length (dropWhile (\<lambda>r. lastColumnOf r = 0) (rev sh))"

definition cell_at :: "cell list \<Rightarrow> nat \<Rightarrow> cell" where
  "cell_at r j = (if j < length r then r ! j else CStr [])"

text \<open>\<open>sheet.deleteRow(i)\<close>: row \<open>i\<close> (counted from 1) goes, the rows below move up.\<close>

definition deleteRow :: "nat \<Rightarrow> sheet \<Rightarrow> sheet" where
  "deleteRow i sh = take (i - 1) sh @ drop i sh"

text \<open>
  The string literals of the scripts are Japanese; they are written here by English
  glosses, of which only equality is used. The header of the history sheet has 11 labels;
  the daily aggregator looks for three of them.
\<close>

definition newHeader :: "string list" where
  "newHeader = [''ID'', ''Account ID'', ''Contract ID'', ''Trade time'', ''Price'', ''P&L'',
                ''Fees'', ''Side'', ''Size'', ''Voided'', ''Order ID'']"

definition headerRow :: "cell list" where
  "headerRow = map CStr newHeader"

text \<open>\<open>if (cellValue)\<close> on a cell.\<close>

fun cell_truthy :: "cell \<Rightarrow> bool" where
  "cell_truthy (CNum n) = (n \<noteq> NaN \<and> n \<noteq> Fin 0 0)"
| "cell_truthy (CBool b) = b"
| "cell_truthy (CStr s) = (s \<noteq> [])"
| "cell_truthy (CDate t) = True"

text \<open>\<open>s.replace(a, b)\<close> with string arguments: the first occurrence only.\<close>

fun replace_first :: "char \<Rightarrow> char \<Rightarrow> string \<Rightarrow> string" where
  "replace_first a b [] = []"
| "replace_first a b (c # cs) = (if c = a then b # cs else c # replace_first a b cs)"

section \<open>The ledger reconciler\<close>

text \<open>
  The calendar date of a stored row, from its cell in column D (the body of the scanning
  loop of \<open>saveTradeHistoryToSheet\<close>): \<open>Inr (Some d)\<close> when the cell gives the date
  string \<open>d\<close>, \<open>Inr None\<close> when the row is passed over (an empty or falsy cell, a short
  string, another type, or a string whose formatting throws inside the inner \<open>try\<close>),
  \<open>Inl\<close> when formatting a \<open>Date\<close> cell throws, which the inner \<open>try\<close> does not cover.
\<close>

definition tradeDate :: "platform \<Rightarrow> cell \<Rightarrow> error + string option" where
  "tradeDate P cellValue =
     (if \<not> cell_truthy cellValue then Inr None
      else case cellValue of
          CDate t \<Rightarrow>
            (case formatDate P TIMEZONE (Some t) of
               None \<Rightarrow> Inl SheetException
             | Some tradeDateStr \<Rightarrow> Inr (Some tradeDateStr))
        | CStr s \<Rightarrow>
            if 10 \<le> length s
            then Inr (formatDate P TIMEZONE
                        (dateOfString P (replace_first CHR ''T'' CHR '' '' (take 19 s))))
            else Inr None
        | _ \<Rightarrow> Inr None)"

text \<open>
  The scanning loop over \<open>existingDataValues\<close> from index \<open>i\<close>: the row numbers
  \<open>i + 2\<close> of the cells dated \<open>targetDate\<close>, in increasing order.
\<close>

fun rowsToDelete :: "platform \<Rightarrow> string \<Rightarrow> nat \<Rightarrow> cell list \<Rightarrow> error + nat list" where
  "rowsToDelete P targetDate i [] = Inr []"
| "rowsToDelete P targetDate i (cellValue # rest) =
     (case tradeDate P cellValue of
        Inl err \<Rightarrow> Inl err
      | Inr tradeDateStr \<Rightarrow>
          (case rowsToDelete P targetDate (Suc i) rest of
             Inl err \<Rightarrow> Inl err
           | Inr rows \<Rightarrow> Inr (if tradeDateStr = Some targetDate then (i + 2) # rows else rows)))"

text \<open>Column D of rows 2 to the last row.\<close>

definition existingDataValues :: "sheet \<Rightarrow> cell list" where
  "existingDataValues sh =
     (if 1 < getLastRow sh then map (\<lambda>r. cell_at r 3) (drop 1 (take (getLastRow sh) sh)) else [])"

text \<open>
  Creating the sheet or checking its header. Reading the header of a sheet with no content
  asks for a range of no columns and throws; a header whose first 11 cells differ from
  \<open>newHeader\<close> makes the script clear the sheet and write the header again.
\<close>

definition currentHeader :: "sheet \<Rightarrow> cell list" where
  "currentHeader sh =
     (case sh of [] \<Rightarrow> [] | r # rs \<Rightarrow> take (getLastColumn sh) (r @ replicate (getLastColumn sh) (CStr [])))"

definition prepareSheet :: "sheet option \<Rightarrow> error + sheet" where
  "prepareSheet existing =
     (case existing of
        None \<Rightarrow> Inr [headerRow]
      | Some sh \<Rightarrow>
          if getLastColumn sh = 0 then Inl SheetException
          else if take 11 (currentHeader sh) \<noteq> headerRow then Inr [headerRow]
          else Inr sh)"

text \<open>The result of one account in a retrieval: \<open>{accountId, tradeCount, trades}\<close>.\<close>

record account_result =
  accountId :: jsval
  tradeCount :: jsval
  trades :: jsval

text \<open>The row written for one trade.\<close>

definition tradeRow :: "jsval \<Rightarrow> jsval \<Rightarrow> jsval list" where
  "tradeRow account_id trade =
     [field trade ''id'', account_id, field trade ''contractId'',
      field trade ''creationTimestamp'', field trade ''price'', field trade ''profitAndLoss'',
      field trade ''fees'',
      JStr (if field trade ''side'' = JNum (Fin 0 0) then ''Buy'' else ''Sell''),
      field trade ''size'',
      JStr (if truthy (field trade ''voided'') then ''Yes'' else ''No''),
      field trade ''orderId'']"

text \<open>
  The two nested \<open>forEach\<close> loops that fill \<open>newRows\<close>. A \<open>trades\<close> value that is no
  array has no \<open>forEach\<close>, and a \<open>null\<close> trade has no properties: both throw a
  \<open>TypeError\<close>.
\<close>

fun accountRows :: "jsval \<Rightarrow> jsval list \<Rightarrow> error + jsval list list" where
  "accountRows account_id [] = Inr []"
| "accountRows account_id (trade # rest) =
     (if nullish trade then Inl TypeError
      else case accountRows account_id rest of
          Inl err \<Rightarrow> Inl err
        | Inr rows \<Rightarrow> Inr (tradeRow account_id trade # rows))"

fun buildRows :: "account_result list \<Rightarrow> error + jsval list list" where
  "buildRows [] = Inr []"
| "buildRows (accountResult # rest) =
     (case trades accountResult of
        JArr ts \<Rightarrow>
          (case accountRows (accountId accountResult) ts of
             Inl err \<Rightarrow> Inl err
           | Inr rows \<Rightarrow>
               (case buildRows rest of
                  Inl err \<Rightarrow> Inl err
                | Inr others \<Rightarrow> Inr (rows @ others)))
      | _ \<Rightarrow> Inl TypeError)"

text \<open>
  \<open>totalProfit\<close>: a number until \<open>+=\<close> adds a truthy value that is neither a number nor
  a boolean, which makes it a string (and \<open>toFixed\<close> fail at the end).
\<close>

datatype total = Number jsnum | Text

definition addProfit :: "total \<Rightarrow> jsval \<Rightarrow> total" where
  "addProfit totalProfit pnl =
     (if \<not> truthy pnl then totalProfit
      else case totalProfit of
          Text \<Rightarrow> Text
        | Number x \<Rightarrow>
            (case pnl of
               JNum n \<Rightarrow> Number (dadd x n)
             | JBool b \<Rightarrow> Number (dadd x (Fin 1 0))
             | _ \<Rightarrow> Text))"

definition tradesOf :: "account_result \<Rightarrow> jsval list" where
  "tradesOf accountResult = (case trades accountResult of JArr ts \<Rightarrow> ts | _ \<Rightarrow> [])"

definition totalProfitOf :: "account_result list \<Rightarrow> total" where
  "totalProfitOf results =
     foldl addProfit (Number (Fin 0 0))
       (map (\<lambda>trade. field trade ''profitAndLoss'') (concat (map tradesOf results)))"

text \<open>What a retrieval returns, and why a run can fail.\<close>

datatype failure =
    NoActiveAccounts
  | NoTradableAccounts
  | Caught error
  | RetrievalFailed failure
  | SheetOutputFailed error

datatype history_result = History string "account_result list" | NoHistory failure

datatype outcome = Saved string nat jsnum | Failed failure

fun success :: "history_result \<Rightarrow> bool" where
  "success (History date results) = True"
| "success (NoHistory f) = False"

fun succeeded :: "outcome \<Rightarrow> bool" where
  "succeeded (Saved date n totalProfit) = True"
| "succeeded (Failed f) = False"

text \<open>
  \<open>saveTradeHistoryToSheet(targetDate, result)\<close>: what it returns and the spreadsheet it
  leaves. The \<open>catch\<close> block turns an exception into a failed outcome and keeps whatever
  the sheet holds at that point. \<open>formatHistorySheet\<close> changes number formats, colours
  and the filter, no cell content, and is left out.
\<close>

definition saveTradeHistoryToSheet ::
  "platform \<Rightarrow> string \<Rightarrow> history_result \<Rightarrow> spreadsheet \<Rightarrow> outcome \<times> spreadsheet" where
  "saveTradeHistoryToSheet P targetDate result ss =
     (case result of
        NoHistory f \<Rightarrow> (Failed (RetrievalFailed f), ss)
      | History date results \<Rightarrow>
          (case prepareSheet (historySheet ss) of
             Inl err \<Rightarrow> (Failed (SheetOutputFailed err), ss)
           | Inr sheet1 \<Rightarrow>
               (case rowsToDelete P targetDate 0 (existingDataValues sheet1) of
                  Inl err \<Rightarrow> (Failed (SheetOutputFailed err), ss\<lparr>historySheet := Some sheet1\<rparr>)
                | Inr rows \<Rightarrow>
                    (let sheet2 = fold deleteRow (rev rows) sheet1
                     in case buildRows results of
                          Inl err \<Rightarrow>
                            (Failed (SheetOutputFailed err), ss\<lparr>historySheet := Some sheet2\<rparr>)
                        | Inr newRows \<Rightarrow>
                            (let sheet3 =
                                   (if newRows \<noteq> []
                                    then take (getLastRow sheet2) sheet2
                                         @ map (map (stored P)) newRows
                                    else sheet2)
                             in case totalProfitOf results of
                                  Text \<Rightarrow>
                                    (Failed (SheetOutputFailed TypeError),
                                     ss\<lparr>historySheet := Some sheet3\<rparr>)
                                | Number totalProfit \<Rightarrow>
                                    (Saved targetDate (length newRows) totalProfit,
                                     ss\<lparr>historySheet := Some sheet3\<rparr>))))))"

section \<open>Retrieval and the run\<close>

definition USERNAME :: string where
  "USERNAME = ''YOUR_USERNAME''"

definition API_KEY :: string where
  "API_KEY = ''YOUR_API_KEY''"

text \<open>\<open>v.length\<close>: defined on arrays and strings.\<close>

fun js_length :: "jsval \<Rightarrow> jsval" where
  "js_length (JArr xs) = JNum (dyadic (int (length xs)) 0)"
| "js_length (JStr s) = JNum (dyadic (int (length s)) 0)"
| "js_length v = JUndef"

text \<open>\<open>toUpperCase\<close> on the letters a to z; other characters are kept.\<close>

definition toUpperCase :: "string \<Rightarrow> string" where
  "toUpperCase s =
     map (\<lambda>c. case map_of (zip ''abcdefghijklmnopqrstuvwxyz'' ''ABCDEFGHIJKLMNOPQRSTUVWXYZ'') c of
                 None \<Rightarrow> c
               | Some u \<Rightarrow> u) s"

text \<open>
  The account filter: an account passes when its \<open>name\<close> is a string that does not start
  with \<open>PRACTICE\<close> in any letter case.
\<close>

definition tradable :: "jsval \<Rightarrow> bool" where
  "tradable account =
     (truthy account \<and>
      (case field account ''name'' of
         JStr name \<Rightarrow> take 8 (toUpperCase name) \<noteq> ''PRACTICE''
       | _ \<Rightarrow> False))"

text \<open>
  The \<open>forEach\<close> over the filtered accounts: one trade search per account, in order; an
  exception of \<open>searchTrades\<close> leaves the loop.
\<close>

fun fetchTrades ::
  "remote \<Rightarrow> jsval \<Rightarrow> string \<Rightarrow> string \<Rightarrow> jsval list \<Rightarrow> error + account_result list" where
  "fetchTrades R token startTimestamp endTimestamp [] = Inr []"
| "fetchTrades R token startTimestamp endTimestamp (account # rest) =
     (case searchTrades R token (field account ''id'') startTimestamp endTimestamp of
        Inl err \<Rightarrow> Inl err
      | Inr ts \<Rightarrow>
          (case fetchTrades R token startTimestamp endTimestamp rest of
             Inl err \<Rightarrow> Inl err
           | Inr results \<Rightarrow>
               Inr (\<lparr>accountId = field account ''id'', tradeCount = js_length ts, trades = ts\<rparr>
                    # results)))"

text \<open>
  The \<open>try\<close> block of \<open>getTradeHistory\<close>: \<open>Inl\<close> what it throws, \<open>Inr\<close> what it
  returns. Logging the accounts reads \<open>acc.name\<close> of every element, and only an array has
  \<open>forEach\<close>.
\<close>

definition tradeHistory :: "remote \<Rightarrow> string \<Rightarrow> error + history_result" where
  "tradeHistory R targetDate =
     (case authenticate R USERNAME API_KEY of
        Inl err \<Rightarrow> Inl err
      | Inr token \<Rightarrow>
          if \<not> truthy token then Inl TokenMissing
          else
            (case searchAccounts R token of
               Inl err \<Rightarrow> Inl err
             | Inr allAccounts \<Rightarrow>
                 if \<not> truthy allAccounts \<or> js_length allAccounts = JNum (Fin 0 0)
                 then Inr (NoHistory NoActiveAccounts)
                 else
                   (case allAccounts of
                      JArr accounts \<Rightarrow>
                        if list_ex nullish accounts then Inl TypeError
                        else
                          (let filteredAccounts = filter tradable accounts
                           in if filteredAccounts = [] then Inr (NoHistory NoTradableAccounts)
                              else
                                (case getDateTimestamps targetDate of
                                   Inl err \<Rightarrow> Inl err
                                 | Inr (startTimestamp, endTimestamp) \<Rightarrow>
                                     (case fetchTrades R token startTimestamp endTimestamp
                                             filteredAccounts of
                                        Inl err \<Rightarrow> Inl err
                                      | Inr results \<Rightarrow> Inr (History targetDate results))))
                    | _ \<Rightarrow> Inl TypeError)))"

text \<open>\<open>getTradeHistory(targetDate)\<close>: the \<open>catch\<close> block returns an unsuccessful result.\<close>

definition getTradeHistory :: "remote \<Rightarrow> string \<Rightarrow> history_result" where
  "getTradeHistory R targetDate =
     (case tradeHistory R targetDate of
        Inl err \<Rightarrow> NoHistory (Caught err)
      | Inr result \<Rightarrow> result)"

text \<open>
  \<open>fetchAndSaveTradeHistory(targetDate)\<close>. Neither callee throws, so its own \<open>catch\<close>
  block is never entered.
\<close>

definition fetchAndSaveTradeHistory ::
  "platform \<Rightarrow> remote \<Rightarrow> string \<Rightarrow> spreadsheet \<Rightarrow> outcome \<times> spreadsheet" where
  "fetchAndSaveTradeHistory P R targetDate ss =
     (case getTradeHistory R targetDate of
        NoHistory f \<Rightarrow> (Failed (RetrievalFailed f), ss)
      | History date results \<Rightarrow>
          saveTradeHistoryToSheet P targetDate (History date results) ss)"

section \<open>A reference runtime\<close>

text \<open>
  The theorems below hold for every runtime. To run the scripts on concrete inputs, here
  is one with the script and the sheets in the time zone \<open>Asia/Tokyo\<close> (nine hours ahead
  of UTC all year):
  \<^item> a sheet keeps numbers, booleans and strings as they are and leaves the cell empty for
    \<open>null\<close>, \<open>undefined\<close>, arrays and objects;
  \<^item> \<open>formatDate\<close> prints the calendar date in the zone asked for and throws on an
    invalid date;
  \<^item> \<open>new Date(s)\<close> reads \<open>YYYY-MM-DD HH:MM:SS\<close> as local time and the full UTC
    date-time format, and nothing else;
  \<^item> \<open>Number(s)\<close> reads the empty string as 0 and a string of digits as its value.
\<close>

definition zoneOffset :: "string \<Rightarrow> int" where
  "zoneOffset tz = (if tz = ''Asia/Tokyo'' then 9 * 3600000 else 0)"

definition dateString :: "int \<Rightarrow> string" where
  "dateString t =
     (let day = t div msPerDay; year = YearFromDay day;
          md = month_date (month_lengths year) 0 (day - DayFromYear year)
      in year_string year @ ''-'' @ pad 2 (nat (fst md + 1)) @ ''-'' @ pad 2 (nat (snd md)))"

definition ref_stored :: "jsval \<Rightarrow> cell" where
  "ref_stored v =
     (case v of JNum n \<Rightarrow> CNum n | JBool b \<Rightarrow> CBool b | JStr s \<Rightarrow> CStr s | _ \<Rightarrow> CStr [])"

definition ref_formatDate :: "string \<Rightarrow> int option \<Rightarrow> string option" where
  "ref_formatDate tz d = (case d of None \<Rightarrow> None | Some t \<Rightarrow> Some (dateString (t + zoneOffset tz)))"

definition ref_dateOfString :: "string \<Rightarrow> int option" where
  "ref_dateOfString s =
     (if length s = 19 \<and> s ! 10 = CHR '' ''
      then (case newDate (take 10 s @ ''T'' @ drop 11 s @ ''.000Z'') of
              None \<Rightarrow> None
            | Some t \<Rightarrow> Some (t - zoneOffset ''Asia/Tokyo''))
      else newDate s)"

definition ref_toNumber :: "string \<Rightarrow> jsnum" where
  "ref_toNumber s =
     (if s = [] then Fin 0 0
      else if list_all is_digit s then double_of_ratio (decimal s) 1
      else NaN)"

text \<open>\<open>ToIntegerOrInfinity\<close> on a finite number: the fraction is dropped.\<close>

fun to_integer :: "jsnum \<Rightarrow> int option" where
  "to_integer (Fin m e) =
     Some (if 0 \<le> e then m * 2 ^ nat e else sgn m * (\<bar>m\<bar> div 2 ^ nat (- e)))"
| "to_integer x = None"

definition ref_localDate ::
  "jsnum \<Rightarrow> jsnum \<Rightarrow> jsnum \<Rightarrow> jsnum \<Rightarrow> jsnum \<Rightarrow> jsnum \<Rightarrow> int option" where
  "ref_localDate y m d h mi s =
     (case map to_integer [y, m, d, h, mi, s] of
        [Some year, Some month, Some date, Some hour, Some minute, Some sec] \<Rightarrow>
          TimeClip (MakeDate (MakeDay (if 0 \<le> year \<and> year \<le> 99 then 1900 + year else year)
                                month date)
                      (MakeTime hour minute sec 0)
                    - zoneOffset ''Asia/Tokyo'')
      | _ \<Rightarrow> None)"

definition tokyo_runtime :: platform where
  "tokyo_runtime =
     \<lparr>stored = ref_stored, formatDate = ref_formatDate, dateOfString = ref_dateOfString,
      toNumber = ref_toNumber, localDate = ref_localDate, scriptTimeZone = ''Asia/Tokyo''\<rparr>"

section \<open>Concrete inputs\<close>

text \<open>
  A provider that answers the login request with HTTP 200 and \<open>success: false\<close>
  (error code 3, no token).
\<close>

definition rejecting_login :: fetched where
  "rejecting_login =
     HTTPResponse 200 ''{success:false,errorCode:3,errorMessage:null,token:null}''
       (Some (JObj [(''success'', JBool False), (''errorCode'', JNum (Fin 3 0)),
                    (''errorMessage'', JNull), (''token'', JNull)]))"

definition rejecting_remote :: remote where
  "rejecting_remote =
     \<lparr>loginKey = (\<lambda>u k. rejecting_login), accountSearch = (\<lambda>t. FetchException),
      tradeSearch = (\<lambda>t a s e. FetchException)\<rparr>"

text \<open>
  A provider with two tradable accounts: the trade search answers for account 1 with one
  trade and times out for account 2.
\<close>

definition sample_trade :: jsval where
  "sample_trade =
     JObj [(''id'', JNum (Fin 101 0)), (''contractId'', JStr ''CON.F.US.MNQ.M25''),
           (''creationTimestamp'', JStr ''2025-05-09T00:31:28.123+00:00''),
           (''price'', JNum (Fin 20001 0)), (''profitAndLoss'', JNum (Fin 21 (- 1))),
           (''fees'', JNum (Fin 37 (- 2))), (''side'', JNum (Fin 0 0)),
           (''size'', JNum (Fin 1 0)), (''voided'', JBool False),
           (''orderId'', JNum (Fin 9001 0))]"

definition ok_body :: "(string \<times> jsval) list \<Rightarrow> fetched" where
  "ok_body kvs =
     HTTPResponse 200 ''{...}''
       (Some (JObj ([(''success'', JBool True), (''errorCode'', JNum (Fin 0 0)),
                     (''errorMessage'', JNull)] @ kvs)))"

definition two_accounts :: "jsval list" where
  "two_accounts =
     [JObj [(''id'', JNum (Fin 1 0)), (''name'', JStr ''EXPRESS-1'')],
      JObj [(''id'', JNum (Fin 1 1)), (''name'', JStr ''EXPRESS-2'')]]"

definition one_failing_remote :: remote where
  "one_failing_remote =
     \<lparr>loginKey = (\<lambda>u k. ok_body [(''token'', JStr ''tok'')]),
      accountSearch = (\<lambda>t. ok_body [(''accounts'', JArr two_accounts)]),
      tradeSearch = (\<lambda>t a s e. if a = JNum (Fin 1 0) then ok_body [(''trades'', JArr [sample_trade])]
                                else FetchException)\<rparr>"

text \<open>A history sheet with the header and one row of 2025-05-09.\<close>

definition stored_row :: "cell list" where
  "stored_row =
     [CNum (Fin 77 0), CNum (Fin 1 0), CStr ''CON.F.US.MNQ.M25'',
      CStr ''2025-05-09T03:00:00.000+00:00'', CNum (Fin 20000 0), CNum (Fin 5 0),
      CNum (Fin 37 (- 2)), CStr ''Sell'', CNum (Fin 1 0), CStr ''No'', CNum (Fin 9000 0)]"

definition one_day_store :: spreadsheet where
  "one_day_store = \<lparr>historySheet = Some [headerRow, stored_row], dailySheet = None\<rparr>"

section \<open>Well-formed dates\<close>

text \<open>
  A valid calendar date in the form \<open>YYYY-MM-DD\<close>: the pattern, a month from 1 to 12
  and a day from 1 to the length of that month in that year.
\<close>

definition valid_date_string :: "string \<Rightarrow> bool" where
  "valid_date_string s =
     (date_pattern s \<and>
      (let year = decimal (take 4 s); month = decimal (take 2 (drop 5 s)); day = decimal (drop 8 s)
       in 1 \<le> month \<and> month \<le> 12 \<and> 1 \<le> day
          \<and> day \<le> month_lengths year ! nat (month - 1)))"

section \<open>The rows of a date\<close>

text \<open>
  A stored row belongs to the date \<open>d\<close> when the reconciler's own reading of its
  column-D cell gives \<open>d\<close>. The rows of the store for \<open>d\<close> are those among rows 2 to the
  last row of the history sheet, in sheet order.
\<close>

definition dated :: "platform \<Rightarrow> string \<Rightarrow> cell list \<Rightarrow> bool" where
  "dated P d r = (tradeDate P (cell_at r 3) = Inr (Some d))"

definition rowsFor :: "platform \<Rightarrow> string \<Rightarrow> spreadsheet \<Rightarrow> sheet" where
  "rowsFor P d ss =
     (case historySheet ss of
        None \<Rightarrow> []
      | Some sh \<Rightarrow> filter (dated P d) (drop 1 (take (getLastRow sh) sh)))"

text \<open>The rows that a call appends: the trades of the result, as the sheet keeps them.\<close>

definition appendedRows :: "platform \<Rightarrow> history_result \<Rightarrow> sheet" where
  "appendedRows P result =
     (case result of
        NoHistory f \<Rightarrow> []
      | History date results \<Rightarrow>
          (case buildRows results of Inl err \<Rightarrow> [] | Inr newRows \<Rightarrow> map (map (stored P)) newRows))"

section \<open>Properties of the remote client\<close>

text \<open>
  C3. \<open>authenticate\<close> returns a token exactly when the login response has status 200, a
  truthy \<open>success\<close> flag (for a boolean flag: \<open>true\<close>), \<open>errorCode\<close> strictly equal to
  0 and a truthy \<open>token\<close> (for a string token: non-empty), and then it returns that token.
  A parsed response that misses any one of the four makes it throw the authentication
  error carrying the status code and the error text; an HTTP 200 answer with
  \<open>success: false\<close> is such a response.
\<close>

theorem authenticate_token_iff_four_conditions:
  "(authenticate R userName apiKey = Inr tok) =
     (\<exists>code body d. loginKey R userName apiKey = HTTPResponse code body (Some d)
        \<and> code = 200 \<and> truthy (field d ''success'')
        \<and> field d ''errorCode'' = JNum (Fin 0 0)
        \<and> truthy (field d ''token'') \<and> tok = field d ''token'')
   \<and> (loginKey R userName apiKey = HTTPResponse code body (Some d) \<and> \<not> nullish d
        \<and> \<not> (code = 200 \<and> truthy (field d ''success'')
               \<and> field d ''errorCode'' = JNum (Fin 0 0) \<and> truthy (field d ''token''))
      \<longrightarrow> authenticate R userName apiKey
            = Inl (AuthenticationError code (errorText d body)))"
proof (intro conjI impI)
  show "(authenticate R userName apiKey = Inr tok) =
     (\<exists>code body d. loginKey R userName apiKey = HTTPResponse code body (Some d)
        \<and> code = 200 \<and> truthy (field d ''success'')
        \<and> field d ''errorCode'' = JNum (Fin 0 0)
        \<and> truthy (field d ''token'') \<and> tok = field d ''token'')"
  proof (cases "loginKey R userName apiKey")
    case FetchException
    then show ?thesis by (simp add: authenticate_def)
  next
    case (HTTPResponse c b pd)
    show ?thesis
    proof (cases pd)
      case None
      with HTTPResponse show ?thesis by (simp add: authenticate_def)
    next
      case (Some d')
      have nl: "nullish d' \<Longrightarrow> \<not> truthy (field d' ''token'')"
        by (auto simp: nullish_def)
      from HTTPResponse Some nl show ?thesis
        by (auto simp: authenticate_def)
    qed
  qed
next
  assume "loginKey R userName apiKey = HTTPResponse code body (Some d) \<and> \<not> nullish d
        \<and> \<not> (code = 200 \<and> truthy (field d ''success'')
               \<and> field d ''errorCode'' = JNum (Fin 0 0) \<and> truthy (field d ''token''))"
  then show "authenticate R userName apiKey = Inl (AuthenticationError code (errorText d body))"
    by (auto simp: authenticate_def)
qed

theorem authenticate_token_iff_four_conditions_witness:
  "authenticate rejecting_remote ''YOUR_USERNAME'' ''YOUR_API_KEY''
     = Inl (AuthenticationError 200
         (JStr ''{success:false,errorCode:3,errorMessage:null,token:null}''))
   \<and> \<not> (\<exists>tok. authenticate rejecting_remote ''YOUR_USERNAME'' ''YOUR_API_KEY'' = Inr tok)"
proof -
  let ?d = "JObj [(''success'', JBool False), (''errorCode'', JNum (Fin 3 0)),
                  (''errorMessage'', JNull), (''token'', JNull)]"
  let ?b = "''{success:false,errorCode:3,errorMessage:null,token:null}''"
  have h: "loginKey rejecting_remote ''YOUR_USERNAME'' ''YOUR_API_KEY'' = HTTPResponse 200 ?b (Some ?d)
        \<and> \<not> nullish ?d
        \<and> \<not> (200 = (200::int) \<and> truthy (field ?d ''success'')
               \<and> field ?d ''errorCode'' = JNum (Fin 0 0) \<and> truthy (field ?d ''token''))"
    by (simp add: rejecting_remote_def rejecting_login_def nullish_def)
  from authenticate_token_iff_four_conditions
         [of rejecting_remote "''YOUR_USERNAME''" "''YOUR_API_KEY''" undefined 200 ?b ?d] h
  have "authenticate rejecting_remote ''YOUR_USERNAME'' ''YOUR_API_KEY''
          = Inl (AuthenticationError 200 (errorText ?d ?b))"
    by blast
  then show ?thesis
    by (simp add: errorText_def js_or_def)
qed

section \<open>Properties of the date window\<close>

lemma DayFromYear_mono: "a \<le> b \<Longrightarrow> DayFromYear a \<le> DayFromYear b"
proof (induction b rule: int_ge_induct)
  case base
  show ?case by simp
next
  case (step i)
  with DayFromYear_less [of i] show ?case by simp
qed

lemma DayFromYear_1970: "DayFromYear 1970 = 0"
  by (simp add: DayFromYear_def)

lemma DayFromYear_upper: "0 \<le> k \<Longrightarrow> DayFromYear (1970 + k) \<le> 366 * k"
proof (induction k rule: int_ge_induct)
  case base
  show ?case by (simp add: DayFromYear_1970)
next
  case (step i)
  have "DayFromYear (1970 + (i + 1)) = DayFromYear (1970 + i) + DaysInYear (1970 + i)"
    using DayFromYear_step [of "1970 + i"] by (simp add: add.assoc)
  with step DaysInYear_bounds(2) [of "1970 + i"] show ?case by simp
qed

lemma DayFromYear_lower: "k \<le> 0 \<Longrightarrow> DayFromYear (1970 + k) \<le> 365 * k"
proof (induction k rule: int_le_induct)
  case base
  show ?case by (simp add: DayFromYear_1970)
next
  case (step i)
  have "DayFromYear (1970 + i) = DayFromYear (1970 + (i - 1)) + DaysInYear (1970 + (i - 1))"
    using DayFromYear_step [of "1970 + (i - 1)"] by simp
  with step DaysInYear_bounds(1) [of "1970 + (i - 1)"] show ?case by simp
qed

lemma DayFromYear_start:
  "DayFromYear (1970 + (if 0 \<le> d then d div 366 else d div 365)) \<le> d"
proof (cases "0 \<le> d")
  case True
  then have "0 \<le> d div 366" by simp
  from DayFromYear_upper [OF this] have "DayFromYear (1970 + d div 366) \<le> 366 * (d div 366)" .
  also have "\<dots> \<le> d" using True by (simp add: )
  finally show ?thesis using True by simp
next
  case False
  then have "d div 365 < 0" by (simp add: pos_imp_zdiv_neg_iff)
  then have "d div 365 \<le> 0" by simp
  from DayFromYear_lower [OF this] have "DayFromYear (1970 + d div 365) \<le> 365 * (d div 365)" .
  also have "\<dots> \<le> d" by simp
  finally show ?thesis using False by simp
qed

lemma year_upto_finds:
  "y0 \<le> y \<Longrightarrow> DayFromYear y \<le> d \<Longrightarrow> d < DayFromYear (y + 1) \<Longrightarrow> year_upto d y0 = y"
proof (induction "nat (y - y0)" arbitrary: y0)
  case 0
  then have "y0 = y" by simp
  with 0 show ?case by (subst year_upto.simps) simp
next
  case (Suc n)
  then have lt: "y0 + 1 \<le> y" by simp
  from DayFromYear_mono [OF lt] Suc.prems have "DayFromYear (y0 + 1) \<le> d" by simp
  moreover have "year_upto d (y0 + 1) = y"
    using Suc.hyps Suc.prems lt by (intro Suc.hyps(1)) simp_all
  ultimately show ?case by (subst year_upto.simps) simp
qed

lemma YearFromDay_unique:
  assumes "DayFromYear y \<le> d" and "d < DayFromYear (y + 1)"
  shows "YearFromDay d = y"
proof -
  let ?y0 = "1970 + (if 0 \<le> d then d div 366 else d div 365)"
  have "?y0 \<le> y"
  proof (rule ccontr)
    assume "\<not> ?y0 \<le> y"
    then have "y + 1 \<le> ?y0" by simp
    from DayFromYear_mono [OF this] DayFromYear_start [of d] assms(2) show False by simp
  qed
  from year_upto_finds [OF this assms] show ?thesis by (simp add: YearFromDay_def)
qed

lemma digit_char:
  assumes "is_digit c"
  shows "0 \<le> digit_val c" and "digit_val c \<le> 9" and "''0123456789'' ! nat (digit_val c) = c"
  using assms by (auto simp: is_digit_def digit_val_def)

lemma decimal_snoc: "decimal (s @ [c]) = 10 * decimal s + digit_val c"
  by (simp add: decimal_def)

lemma decimal_nonneg: "list_all is_digit s \<Longrightarrow> 0 \<le> decimal s"
proof (induction s rule: rev_induct)
  case Nil
  show ?case by (simp add: decimal_def)
next
  case (snoc c s)
  then show ?case using digit_char(1) [of c] by (simp add: decimal_snoc)
qed

lemma pad_decimal: "list_all is_digit s \<Longrightarrow> pad (length s) (nat (decimal s)) = s"
proof (induction s rule: rev_induct)
  case Nil
  show ?case by simp
next
  case (snoc c s)
  then have ds: "list_all is_digit s" and dc: "is_digit c" by simp_all
  let ?D = "decimal s" and ?v = "digit_val c"
  have D: "0 \<le> ?D" using ds by (rule decimal_nonneg)
  have v: "0 \<le> ?v" "?v \<le> 9" using dc by (rule digit_char)+
  have n: "nat (10 * ?D + ?v) = 10 * nat ?D + nat ?v"
    using D v by (simp add: nat_add_distrib nat_mult_distrib)
  have "nat ?v < 10" using v by simp
  then have "(10 * nat ?D + nat ?v) div 10 = nat ?D" "(10 * nat ?D + nat ?v) mod 10 = nat ?v"
    by simp_all
  with n snoc.IH [OF ds] digit_char(3) [OF dc] show ?case
    by (simp add: decimal_snoc)
qed

lemma decimal_bound: "list_all is_digit s \<Longrightarrow> decimal s < 10 ^ length s"
proof (induction s rule: rev_induct)
  case Nil
  show ?case by (simp add: decimal_def)
next
  case (snoc c s)
  then have "decimal s < 10 ^ length s" and "digit_val c \<le> 9"
    using digit_char(2) [of c] by simp_all
  then have "decimal s + 1 \<le> 10 ^ length s" by simp
  then have "10 * (decimal s + 1) \<le> 10 * 10 ^ length s" by (simp only: mult_le_cancel_left_pos)
  with \<open>digit_val c \<le> 9\<close> show ?case by (simp add: decimal_snoc)
qed

lemma pad2: "pad 2 v = [''0123456789'' ! (v div 10 mod 10), ''0123456789'' ! (v mod 10)]"
proof -
  have "pad (Suc (Suc 0)) v = [''0123456789'' ! (v div 10 mod 10), ''0123456789'' ! (v mod 10)]"
    by simp
  then show ?thesis by (simp only: numeral_2_eq_2)
qed

lemma pad3: "pad 3 v = [''0123456789'' ! (v div 10 div 10 mod 10), ''0123456789'' ! (v div 10 mod 10), ''0123456789'' ! (v mod 10)]"
proof -
  have "pad (Suc (Suc (Suc 0))) v = [''0123456789'' ! (v div 10 div 10 mod 10), ''0123456789'' ! (v div 10 mod 10), ''0123456789'' ! (v mod 10)]"
    by simp
  then show ?thesis by (simp only: numeral_3_eq_3)
qed

lemma month_lengths_form:
  "\<exists>f. month_lengths y = [31, f, 31, 30, 31, 30, 31, 31, 30, 31, 30, 31]
       \<and> (f = 28 \<or> f = 29) \<and> 337 + f = DaysInYear y"
  by (auto simp: month_lengths_def DaysInYear_def)

lemma month_cases:
  "1 \<le> (m::int) \<Longrightarrow> m \<le> 12 \<Longrightarrow>
   m = 1 \<or> m = 2 \<or> m = 3 \<or> m = 4 \<or> m = 5 \<or> m = 6 \<or> m = 7 \<or> m = 8 \<or> m = 9 \<or> m = 10
     \<or> m = 11 \<or> m = 12"
  by arith

lemma month_date_valid:
  assumes "1 \<le> m" and "m \<le> 12" and "1 \<le> d" and "d \<le> month_lengths y ! nat (m - 1)"
  shows "month_date (month_lengths y) 0 (sum_list (take (nat (m - 1)) (month_lengths y)) + d - 1)
           = (m - 1, d)"
    and "0 \<le> sum_list (take (nat (m - 1)) (month_lengths y)) + d - 1"
    and "sum_list (take (nat (m - 1)) (month_lengths y)) + d - 1 < DaysInYear y"
    and "d \<le> 31"
proof -
  obtain f where f: "month_lengths y = [31, f, 31, 30, 31, 30, 31, 31, 30, 31, 30, 31]"
      "f = 28 \<or> f = 29" "337 + f = DaysInYear y"
    using month_lengths_form [of y] by blast
  note m = month_cases [OF assms(1,2)]
  show "month_date (month_lengths y) 0 (sum_list (take (nat (m - 1)) (month_lengths y)) + d - 1)
           = (m - 1, d)"
    using m assms(3,4) f(2) unfolding f(1) by (elim disjE) simp_all
  show "0 \<le> sum_list (take (nat (m - 1)) (month_lengths y)) + d - 1"
    using m assms(3,4) f(2) unfolding f(1) by (elim disjE) simp_all
  show "sum_list (take (nat (m - 1)) (month_lengths y)) + d - 1 < DaysInYear y"
    using m assms(3,4) f(2) unfolding f(1) f(3) [symmetric] by (elim disjE) simp_all
  show "d \<le> 31"
    using m assms(3,4) f(2) unfolding f(1) by (elim disjE) simp_all
qed

lemma date_pattern_chars:
  "date_pattern s \<Longrightarrow>
   \<exists>y1 y2 y3 y4 m1 m2 d1 d2.
     s = [y1, y2, y3, y4, CHR ''-'', m1, m2, CHR ''-'', d1, d2]
     \<and> list_all is_digit [y1, y2, y3, y4] \<and> list_all is_digit [m1, m2]
     \<and> list_all is_digit [d1, d2]"
  by (auto simp: date_pattern_def split: list.splits)

lemma day_time_split:
  assumes "0 \<le> tm" and "tm < msPerDay"
  shows "(D * msPerDay + tm) div msPerDay = D" and "(D * msPerDay + tm) mod msPerDay = tm"
proof -
  have k: "0 < msPerDay" by (simp add: msPerDay_def)
  show "(D * msPerDay + tm) div msPerDay = D"
    using assms k by (simp add: div_pos_pos_trivial)
  show "(D * msPerDay + tm) mod msPerDay = tm"
    using assms k by (simp add: mod_pos_pos_trivial)
qed

lemma year_day_range:
  assumes "0 \<le> year" and "year \<le> 9999"
  shows "- 719528 \<le> DayFromYear year" and "DayFromYear (year + 1) \<le> 2932897"
proof -
  have "DayFromYear 0 \<le> DayFromYear year" using assms(1) by (rule DayFromYear_mono)
  then show "- 719528 \<le> DayFromYear year" by (simp add: DayFromYear_def)
  have "DayFromYear (year + 1) \<le> DayFromYear 10000"
    using assms(2) by (intro DayFromYear_mono) simp
  then show "DayFromYear (year + 1) \<le> 2932897" by (simp add: DayFromYear_def)
qed

text \<open>A valid calendar day at a time of day: its time value and how it prints.\<close>

lemma calendar_instant:
  assumes y: "0 \<le> year" "year \<le> 9999"
    and m: "1 \<le> month" "month \<le> 12"
    and d: "1 \<le> day" "day \<le> month_lengths year ! nat (month - 1)"
    and tm: "0 \<le> tm" "tm < msPerDay"
  shows "TimeClip (MakeDate (MakeDay year (month - 1) day) tm)
           = Some (MakeDay year (month - 1) day * msPerDay + tm)"
    and "toISOString (Some (MakeDay year (month - 1) day * msPerDay + tm))
           = Inr (pad 4 (nat year) @ ''-'' @ pad 2 (nat month) @ ''-'' @ pad 2 (nat day)
                  @ ''T'' @ pad 2 (nat (tm div 3600000)) @ '':''
                  @ pad 2 (nat (tm mod 3600000 div 60000)) @ '':''
                  @ pad 2 (nat (tm mod 60000 div 1000)) @ ''.''
                  @ pad 3 (nat (tm mod 1000)) @ ''Z'')"
proof -
  let ?r = "sum_list (take (nat (month - 1)) (month_lengths year)) + day - 1"
  let ?D = "MakeDay year (month - 1) day"
  have mm: "(month - 1) div 12 = 0" "(month - 1) mod 12 = month - 1"
    using m by (simp_all add: div_pos_pos_trivial mod_pos_pos_trivial)
  have D: "?D = DayFromYear year + ?r"
    by (simp add: MakeDay_def mm)
  note md = month_date_valid [OF m d]
  have lo: "DayFromYear year \<le> ?D" using md(2) D by simp
  have hi: "?D < DayFromYear (year + 1)" using md(3) D by (simp add: DayFromYear_step)
  have yr: "YearFromDay ?D = year" using lo hi by (rule YearFromDay_unique)
  note rng = year_day_range [OF y]
  have "- 719528 \<le> ?D" "?D < 2932897" using lo hi rng by simp_all
  then have "\<bar>?D * msPerDay + tm\<bar> \<le> 8640000000000000"
    using tm unfolding msPerDay_def by simp
  then show "TimeClip (MakeDate ?D tm) = Some (?D * msPerDay + tm)"
    by (simp add: TimeClip_def MakeDate_def)
  have r: "?D - DayFromYear year = ?r" using D by simp
  show "toISOString (Some (?D * msPerDay + tm))
           = Inr (pad 4 (nat year) @ ''-'' @ pad 2 (nat month) @ ''-'' @ pad 2 (nat day)
                  @ ''T'' @ pad 2 (nat (tm div 3600000)) @ '':''
                  @ pad 2 (nat (tm mod 3600000 div 60000)) @ '':''
                  @ pad 2 (nat (tm mod 60000 div 1000)) @ ''.''
                  @ pad 3 (nat (tm mod 1000)) @ ''Z'')"
    unfolding toISOString_def option.case Let_def day_time_split [OF tm] yr r md(1)
    using y by (simp add: year_string_def)
qed

lemma pad_decimal2: "is_digit a \<Longrightarrow> is_digit b \<Longrightarrow> pad 2 (nat (decimal [a, b])) = [a, b]"
proof -
  assume "is_digit a" "is_digit b"
  then have "pad (length [a, b]) (nat (decimal [a, b])) = [a, b]"
    by (intro pad_decimal) simp
  moreover have "length [a, b] = 2" by simp
  ultimately show ?thesis by (simp only:)
qed

lemma pad_decimal4:
  "list_all is_digit [a, b, c, d] \<Longrightarrow> pad 4 (nat (decimal [a, b, c, d])) = [a, b, c, d]"
proof -
  assume "list_all is_digit [a, b, c, d]"
  then have "pad (length [a, b, c, d]) (nat (decimal [a, b, c, d])) = [a, b, c, d]"
    by (rule pad_decimal)
  moreover have "length [a, b, c, d] = 4" by simp
  ultimately show ?thesis by (simp only:)
qed

lemma time_digits:
  "is_digit CHR ''0''" "is_digit CHR ''2''" "is_digit CHR ''3''" "is_digit CHR ''5''"
  "is_digit CHR ''9''"
  "decimal ''00'' = 0" "decimal ''000'' = 0" "decimal ''23'' = 23" "decimal ''59'' = 59"
  "decimal ''999'' = 999"
  by (simp_all add: is_digit_def decimal_def digit_val_def)

lemma window_of_valid_date:
  assumes "valid_date_string s"
  shows "\<exists>t0 t1. newDate (s @ ''T00:00:00.000Z'') = Some t0
           \<and> newDate (s @ ''T23:59:59.999Z'') = Some t1
           \<and> t0 mod msPerDay = 0 \<and> t1 = t0 + 86399999 \<and> t0 < t1
           \<and> t1 div msPerDay = t0 div msPerDay
           \<and> getDateTimestamps s = Inr (s @ ''T00:00:00.000Z'', s @ ''T23:59:59.999Z'')"
proof -
  from assms have pat: "date_pattern s" by (simp add: valid_date_string_def)
  then obtain y1 y2 y3 y4 m1 m2 d1 d2 where
    s: "s = [y1, y2, y3, y4, CHR ''-'', m1, m2, CHR ''-'', d1, d2]"
    and dy: "list_all is_digit [y1, y2, y3, y4]"
    and dm: "list_all is_digit [m1, m2]" and dd: "list_all is_digit [d1, d2]"
    using date_pattern_chars by blast
  define year where "year = decimal [y1, y2, y3, y4]"
  define month where "month = decimal [m1, m2]"
  define day where "day = decimal [d1, d2]"
  from assms have m: "1 \<le> month" "month \<le> 12"
    and d: "1 \<le> day" "day \<le> month_lengths year ! nat (month - 1)"
    by (simp_all add: valid_date_string_def s year_def month_def day_def Let_def)
  have y: "0 \<le> year" "year \<le> 9999"
    using decimal_nonneg [OF dy] decimal_bound [OF dy] by (simp_all add: year_def)
  have d31: "day \<le> 31" using month_date_valid(4) [OF m d] .
  let ?D = "MakeDay year (month - 1) day"
  let ?t0 = "?D * msPerDay + 0" and ?t1 = "?D * msPerDay + 86399999"
  have tm0: "(0::int) \<le> 0" "(0::int) < msPerDay"
    and tm1: "(0::int) \<le> 86399999" "(86399999::int) < msPerDay"
    by (simp_all add: msPerDay_def)
  have n0: "newDate (s @ ''T00:00:00.000Z'') = Some ?t0"
    using dy dm dd m d(1) d31 calendar_instant(1) [OF y m d tm0]
    by (simp add: s newDate_def time_digits MakeTime_def year_def month_def day_def)
  have n1: "newDate (s @ ''T23:59:59.999Z'') = Some ?t1"
    using dy dm dd m d(1) d31 calendar_instant(1) [OF y m d tm1]
    by (simp add: s newDate_def time_digits MakeTime_def year_def month_def day_def)
  have date: "pad 4 (nat year) @ ''-'' @ pad 2 (nat month) @ ''-'' @ pad 2 (nat day) = s"
    using pad_decimal4 [OF dy] pad_decimal2 [of m1 m2] pad_decimal2 [of d1 d2] dm dd
    by (simp add: s year_def month_def day_def)
  have p0: "toISOString (Some ?t0) = Inr (s @ ''T00:00:00.000Z'')"
    using calendar_instant(2) [OF y m d tm0] date by (simp add: pad2 pad3)
  have p1: "toISOString (Some ?t1) = Inr (s @ ''T23:59:59.999Z'')"
    using calendar_instant(2) [OF y m d tm1] date by (simp add: pad2 pad3)
  have g: "getDateTimestamps s = Inr (s @ ''T00:00:00.000Z'', s @ ''T23:59:59.999Z'')"
    using pat p0 p1 by (simp add: getDateTimestamps_def n0 n1)
  have "?t0 mod msPerDay = 0" by simp
  moreover have "?t1 = ?t0 + 86399999" by simp
  moreover have "?t1 div msPerDay = ?t0 div msPerDay"
    using day_time_split(1) [OF tm0, of ?D] day_time_split(1) [OF tm1, of ?D] by simp
  ultimately show ?thesis using n0 n1 g by auto
qed

lemma sample_date_valid: "valid_date_string ''2025-05-09''"
  by (simp add: valid_date_string_def date_pattern_def is_digit_def decimal_def digit_val_def
      month_lengths_def)

lemma sample_date_window:
  "getDateTimestamps ''2025-05-09''
     = Inr (''2025-05-09T00:00:00.000Z'', ''2025-05-09T23:59:59.999Z'')"
  using window_of_valid_date [OF sample_date_valid] by auto

text \<open>
  C5. For every valid \<open>YYYY-MM-DD\<close> date string, \<open>getDateTimestamps\<close> returns the
  input followed by \<open>T00:00:00.000Z\<close> and by \<open>T23:59:59.999Z\<close>: two UTC instants
  whose calendar date is the input, the first at the start of that day, the second
  86399999 ms later on the same day, so the start is strictly earlier than the end.
\<close>

theorem getDateTimestamps_window:
  assumes "valid_date_string s"
  shows "\<exists>t0 t1. newDate (s @ ''T00:00:00.000Z'') = Some t0
           \<and> newDate (s @ ''T23:59:59.999Z'') = Some t1
           \<and> t0 mod msPerDay = 0 \<and> t1 = t0 + 86399999 \<and> t0 < t1
           \<and> t1 div msPerDay = t0 div msPerDay
           \<and> getDateTimestamps s = Inr (s @ ''T00:00:00.000Z'', s @ ''T23:59:59.999Z'')"
  using assms by (rule window_of_valid_date)

theorem getDateTimestamps_window_witness:
  "valid_date_string ''2025-05-09''
   \<and> getDateTimestamps ''2025-05-09''
       = Inr (''2025-05-09T00:00:00.000Z'', ''2025-05-09T23:59:59.999Z'')"
proof -
  have v: "valid_date_string ''2025-05-09''"
    by (rule sample_date_valid)
  from getDateTimestamps_window [OF v] show ?thesis using v by auto
qed

text \<open>
  The string \<open>2025-13-45\<close> has the shape of a date and is no calendar date; the window
  builder passes it to \<open>Date\<close> and fails in \<open>toISOString\<close>, not with the format error.
\<close>

theorem getDateTimestamps_malformed_counterexample:
  "\<not> valid_date_string ''2025-13-45''
   \<and> getDateTimestamps ''2025-13-45'' = Inl RangeError
   \<and> getDateTimestamps ''2025-13-45'' \<noteq> Inl InvalidDateFormat"
  by (simp add: valid_date_string_def getDateTimestamps_def date_pattern_def newDate_def
      toISOString_def is_digit_def decimal_def digit_val_def)

text \<open>
  C4 (amended). Every string that does not match the pattern of four digits, a hyphen, two
  digits, a hyphen and two digits makes \<open>getDateTimestamps\<close> fail with the
  invalid-date-format error.
\<close>

theorem getDateTimestamps_rejects_other_shapes:
  "\<not> date_pattern s \<Longrightarrow> getDateTimestamps s = Inl InvalidDateFormat"
  by (simp add: getDateTimestamps_def)

theorem getDateTimestamps_rejects_other_shapes_witness:
  "\<not> date_pattern ''2025-5-9'' \<and> getDateTimestamps ''2025-5-9'' = Inl InvalidDateFormat"
proof -
  have h: "\<not> date_pattern ''2025-5-9''"
    by (simp add: date_pattern_def)
  from getDateTimestamps_rejects_other_shapes [OF h] h show ?thesis by simp
qed

section \<open>Properties of the retrieval and of the run\<close>

lemma fetchTrades_stops:
  "account \<in> set accounts \<Longrightarrow>
   searchTrades R token (field account ''id'') s e = Inl err \<Longrightarrow>
   \<exists>err'. fetchTrades R token s e accounts = Inl err'"
proof (induction accounts)
  case Nil
  then show ?case by simp
next
  case (Cons a accounts)
  show ?case
  proof (cases "searchTrades R token (field a ''id'') s e")
    case (Inl x)
    then show ?thesis by simp
  next
    case (Inr ts)
    with Cons.prems have "account \<in> set accounts" by auto
    from Cons.IH [OF this Cons.prems(2)] obtain err' where
      "fetchTrades R token s e accounts = Inl err'" by blast
    with Inr show ?thesis by simp
  qed
qed

lemma authenticate_truthy: "authenticate R u k = Inr token \<Longrightarrow> truthy token"
  by (auto simp: authenticate_def split: fetched.splits option.splits if_splits)

lemma strip_even_nonzero: "m \<noteq> 0 \<Longrightarrow> fst (strip_even m e) \<noteq> 0"
proof (induction m e rule: strip_even.induct)
  case (1 m e)
  show ?case
  proof (cases "even m")
    case True
    with 1 have "m div 2 \<noteq> 0" by auto
    with 1 True show ?thesis by (subst strip_even.simps) simp
  next
    case False
    with 1 show ?thesis by (subst strip_even.simps) simp
  qed
qed

lemma dyadic_zero_iff: "dyadic m e = Fin 0 0 \<longleftrightarrow> m = 0"
proof (cases "m = 0")
  case True
  then show ?thesis by (simp add: dyadic_def)
next
  case False
  obtain m' e' where s: "strip_even m e = (m', e')" by (cases "strip_even m e")
  have "fst (strip_even m e) \<noteq> 0" using False by (rule strip_even_nonzero)
  then have "m' \<noteq> 0" unfolding s by simp
  moreover have "dyadic m e = Fin m' e'"
    by (simp only: dyadic_def s False if_False prod.case)
  ultimately show ?thesis using False by simp
qed

text \<open>
  C2 (amended). When the trade search fails for any tradable account, whether or not it
  succeeds for others, \<open>getTradeHistory\<close> leaves the loop and returns an unsuccessful
  result carrying the error it caught; \<open>fetchAndSaveTradeHistory\<close> then returns a failed
  outcome without running the reconciler, and the spreadsheet is as it was. An outcome is
  a success or a failure; there is no third, partial, kind.
\<close>

theorem failed_trade_search_fails_the_run:
  assumes "authenticate R USERNAME API_KEY = Inr token"
    and "searchAccounts R token = Inr (JArr accounts)"
    and "getDateTimestamps targetDate = Inr (startTimestamp, endTimestamp)"
    and "account \<in> set (filter tradable accounts)"
    and "searchTrades R token (field account ''id'') startTimestamp endTimestamp = Inl err"
  shows "\<exists>err'. getTradeHistory R targetDate = NoHistory (Caught err')
           \<and> fetchAndSaveTradeHistory P R targetDate ss
               = (Failed (RetrievalFailed (Caught err')), ss)"
proof -
  have tt: "truthy token" using assms(1) by (rule authenticate_truthy)
  from assms(4) have ne: "accounts \<noteq> []" "filter tradable accounts \<noteq> []"
    by (auto simp: filter_empty_conv)
  then have len: "js_length (JArr accounts) \<noteq> JNum (Fin 0 0)"
    by (simp add: dyadic_zero_iff)
  from fetchTrades_stops [OF assms(4,5)] obtain e1 where
    f: "fetchTrades R token startTimestamp endTimestamp (filter tradable accounts) = Inl e1"
    by blast
  have "\<exists>err'. tradeHistory R targetDate = Inl err'"
    using assms(1,2,3) tt len ne f by (simp add: tradeHistory_def Let_def)
  then obtain err' where "tradeHistory R targetDate = Inl err'" by blast
  then have "getTradeHistory R targetDate = NoHistory (Caught err')"
    by (simp add: getTradeHistory_def)
  then show ?thesis by (auto simp: fetchAndSaveTradeHistory_def)
qed

text \<open>
  C9. If the retrieval fails (\<open>getTradeHistory\<close> returns an unsuccessful result), the run
  fails and leaves the spreadsheet as it was: no row of any date is deleted. The same holds
  for \<open>saveTradeHistoryToSheet\<close> called with an unsuccessful result.
\<close>

theorem failed_retrieval_keeps_the_store:
  "(\<not> success (getTradeHistory R targetDate) \<longrightarrow>
      snd (fetchAndSaveTradeHistory P R targetDate ss) = ss
      \<and> \<not> succeeded (fst (fetchAndSaveTradeHistory P R targetDate ss)))
   \<and> (\<not> success result \<longrightarrow>
      snd (saveTradeHistoryToSheet P targetDate result ss) = ss
      \<and> \<not> succeeded (fst (saveTradeHistoryToSheet P targetDate result ss)))"
proof (intro conjI impI)
  assume "\<not> success (getTradeHistory R targetDate)"
  then obtain f where "getTradeHistory R targetDate = NoHistory f"
    by (cases "getTradeHistory R targetDate") auto
  then show "snd (fetchAndSaveTradeHistory P R targetDate ss) = ss"
    and "\<not> succeeded (fst (fetchAndSaveTradeHistory P R targetDate ss))"
    by (simp_all add: fetchAndSaveTradeHistory_def)
next
  assume "\<not> success result"
  then obtain f where "result = NoHistory f" by (cases result) auto
  then show "snd (saveTradeHistoryToSheet P targetDate result ss) = ss"
    and "\<not> succeeded (fst (saveTradeHistoryToSheet P targetDate result ss))"
    by (simp_all add: saveTradeHistoryToSheet_def)
qed

lemma rejecting_history:
  "getTradeHistory rejecting_remote ''2025-05-09''
     = NoHistory (Caught (AuthenticationError 200
         (JStr ''{success:false,errorCode:3,errorMessage:null,token:null}'')))"
  by (simp add: getTradeHistory_def tradeHistory_def authenticate_def rejecting_remote_def
      rejecting_login_def nullish_def errorText_def js_or_def USERNAME_def API_KEY_def)

lemma first_account_trades:
  "searchTrades one_failing_remote (JStr ''tok'') (JNum (Fin 1 0))
     ''2025-05-09T00:00:00.000Z'' ''2025-05-09T23:59:59.999Z'' = Inr (JArr [sample_trade])"
  by (simp add: searchTrades_def one_failing_remote_def ok_body_def nullish_def js_or_def)

lemma second_account_fails:
  "searchTrades one_failing_remote (JStr ''tok'') (JNum (Fin 1 1))
     ''2025-05-09T00:00:00.000Z'' ''2025-05-09T23:59:59.999Z'' = Inl FetchFailed"
  by (simp add: searchTrades_def one_failing_remote_def ok_body_def nullish_def js_or_def)

lemma sample_login: "authenticate one_failing_remote USERNAME API_KEY = Inr (JStr ''tok'')"
  by (simp add: authenticate_def one_failing_remote_def ok_body_def nullish_def)

lemma sample_accounts: "searchAccounts one_failing_remote (JStr ''tok'') = Inr (JArr two_accounts)"
  by (simp add: searchAccounts_def one_failing_remote_def ok_body_def nullish_def)

lemma sample_tradable: "filter tradable two_accounts = two_accounts"
  by (simp add: two_accounts_def tradable_def toUpperCase_def)

text \<open>
  One of two accounts times out, the other returns a trade: the run is a failure, not a
  partial success, and the trade of the account that answered is not written.
\<close>

theorem partial_run_counterexample:
  "searchTrades one_failing_remote (JStr ''tok'') (JNum (Fin 1 0))
     ''2025-05-09T00:00:00.000Z'' ''2025-05-09T23:59:59.999Z'' = Inr (JArr [sample_trade])
   \<and> searchTrades one_failing_remote (JStr ''tok'') (JNum (Fin 1 1))
     ''2025-05-09T00:00:00.000Z'' ''2025-05-09T23:59:59.999Z'' = Inl FetchFailed
   \<and> fetchAndSaveTradeHistory tokyo_runtime one_failing_remote ''2025-05-09'' one_day_store
       = (Failed (RetrievalFailed (Caught FetchFailed)), one_day_store)"
proof -
  have nn: "\<not> list_ex nullish two_accounts"
    by (simp add: two_accounts_def nullish_def)
  have len: "two_accounts \<noteq> []" "dyadic (int (length two_accounts)) 0 \<noteq> Fin 0 0"
    by (simp_all add: dyadic_zero_iff two_accounts_def)
  have ft: "fetchTrades one_failing_remote (JStr ''tok'') ''2025-05-09T00:00:00.000Z''
              ''2025-05-09T23:59:59.999Z'' two_accounts = Inl FetchFailed"
    by (simp add: two_accounts_def first_account_trades second_account_fails)
  have "tradeHistory one_failing_remote ''2025-05-09'' = Inl FetchFailed"
    by (simp add: tradeHistory_def sample_login sample_accounts len nn sample_tradable
        sample_date_window ft)
  then have "getTradeHistory one_failing_remote ''2025-05-09'' = NoHistory (Caught FetchFailed)"
    by (simp add: getTradeHistory_def)
  then show ?thesis
    by (simp add: fetchAndSaveTradeHistory_def first_account_trades second_account_fails)
qed

theorem failed_trade_search_fails_the_run_witness:
  "authenticate one_failing_remote USERNAME API_KEY = Inr (JStr ''tok'')
   \<and> searchAccounts one_failing_remote (JStr ''tok'') = Inr (JArr two_accounts)
   \<and> getDateTimestamps ''2025-05-09''
       = Inr (''2025-05-09T00:00:00.000Z'', ''2025-05-09T23:59:59.999Z'')
   \<and> two_accounts ! 1 \<in> set (filter tradable two_accounts)
   \<and> searchTrades one_failing_remote (JStr ''tok'') (field (two_accounts ! 1) ''id'')
         ''2025-05-09T00:00:00.000Z'' ''2025-05-09T23:59:59.999Z'' = Inl FetchFailed
   \<and> (\<exists>err'. getTradeHistory one_failing_remote ''2025-05-09'' = NoHistory (Caught err')
         \<and> fetchAndSaveTradeHistory tokyo_runtime one_failing_remote ''2025-05-09'' one_day_store
             = (Failed (RetrievalFailed (Caught err')), one_day_store))"
proof -
  have m: "two_accounts ! 1 \<in> set (filter tradable two_accounts)"
    unfolding sample_tradable by (simp add: two_accounts_def)
  have f: "searchTrades one_failing_remote (JStr ''tok'') (field (two_accounts ! 1) ''id'')
         ''2025-05-09T00:00:00.000Z'' ''2025-05-09T23:59:59.999Z'' = Inl FetchFailed"
    using second_account_fails by (simp add: two_accounts_def)
  from failed_trade_search_fails_the_run
         [OF sample_login sample_accounts sample_date_window m f,
          of tokyo_runtime one_day_store]
  show ?thesis using sample_login sample_accounts sample_date_window m f by blast
qed

theorem failed_retrieval_keeps_the_store_witness:
  "\<not> success (getTradeHistory rejecting_remote ''2025-05-09'')
   \<and> snd (fetchAndSaveTradeHistory tokyo_runtime rejecting_remote ''2025-05-09'' one_day_store)
       = one_day_store
   \<and> \<not> success (NoHistory NoActiveAccounts)
   \<and> snd (saveTradeHistoryToSheet tokyo_runtime ''2025-05-09'' (NoHistory NoActiveAccounts)
            one_day_store) = one_day_store"
proof -
  have a: "\<not> success (getTradeHistory rejecting_remote ''2025-05-09'')"
    by (simp add: rejecting_history)
  have b: "\<not> success (NoHistory NoActiveAccounts)" by simp
  from failed_retrieval_keeps_the_store
         [of rejecting_remote "''2025-05-09''" tokyo_runtime one_day_store
             "NoHistory NoActiveAccounts"] a b
  show ?thesis by blast
qed

end
